theory Spec2Isabelle
  imports Main
begin

section \<open>Values and strings of the relier model\<close>

text \<open>
  The OAuth relier (\<^verbatim>\<open>app/scripts/models/reliers/oauth.js\<close>) is a Backbone model: a bag
  of named attributes. An attribute holds a string, a boolean or an array of strings;
  \<^verbatim>\<open>null\<close> and \<^verbatim>\<open>undefined\<close> are both the absence of a value (\<open>None\<close>).
  Strings are lists of code units below 256.
\<close>

datatype jsval = JString string | JBoolean bool | JArray "string list"

type_synonym attrs = "string \<rightharpoonup> jsval"

text \<open>JavaScript truthiness of an attribute value, as \<^verbatim>\<open>if (x)\<close> and \<^verbatim>\<open>!x\<close> read it.\<close>

fun truthy :: "jsval option \<Rightarrow> bool" where
  "truthy None = False"
| "truthy (Some (JString s)) = (s \<noteq> [])"
| "truthy (Some (JBoolean b)) = b"
| "truthy (Some (JArray xs)) = True"

text \<open>Backbone's \<^verbatim>\<open>has\<close>: the attribute is neither null nor undefined.\<close>

definition has :: "attrs \<Rightarrow> string \<Rightarrow> bool" where
  "has r k \<longleftrightarrow> r k \<noteq> None"

text \<open>
  The characters that the regular expression class \<^verbatim>\<open>\s\<close> and \<^verbatim>\<open>String.prototype.trim\<close>
  treat as white space, among the code units below 256: tab, line feed, vertical tab,
  form feed, carriage return, space and no-break space.
\<close>

definition isSpaceChar :: "char \<Rightarrow> bool" where
  "isSpaceChar c \<longleftrightarrow> (of_char c :: nat) \<in> {9, 10, 11, 12, 13, 32, 160}"

text \<open>\<^verbatim>\<open>String.prototype.trim\<close>: white space is removed from both ends.\<close>

definition trim :: "string \<Rightarrow> string" where
  "trim s = rev (dropWhile isSpaceChar (rev (dropWhile isSpaceChar s)))"

text \<open>
  \<^verbatim>\<open>s.split(/\s+/g)\<close>: the string is cut at every maximal run of white space. The piece
  before a run is emitted when the run starts, also when that piece is empty (a string
  that starts with white space yields a leading empty piece), and the piece after the
  last run is emitted at the end, also when it is empty.
\<close>

function splitFrom :: "string \<Rightarrow> string \<Rightarrow> string list" where
  "splitFrom piece [] = [piece]"
| "splitFrom piece (c # cs) =
     (if isSpaceChar c then piece # splitFrom [] (dropWhile isSpaceChar cs)
      else splitFrom (piece @ [c]) cs)"
  by pat_completeness auto
termination
  by (relation "measure (\<lambda>(piece, s). length s)")
     (auto simp: le_imp_less_Suc length_dropWhile_le)

definition split_ws :: "string \<Rightarrow> string list" where
  "split_ws s = splitFrom [] s"

text \<open>\<^verbatim>\<open>Array.prototype.join\<close> on an array of strings.\<close>

fun join :: "string \<Rightarrow> string list \<Rightarrow> string" where
  "join sep [] = []"
| "join sep [x] = x"
| "join sep (x # y # ys) = x @ sep @ join sep (y # ys)"

section \<open>The underscore functions the relier calls\<close>

text \<open>
  \<^verbatim>\<open>_.uniq(array)\<close> walks the array and pushes a value to the result unless the result
  contains it already: the first occurrence of each value is kept.
\<close>

fun uniq_into :: "'a list \<Rightarrow> 'a list \<Rightarrow> 'a list" where
  "uniq_into result [] = result"
| "uniq_into result (x # xs) =
     (if x \<in> set result then uniq_into result xs else uniq_into (result @ [x]) xs)"

definition uniq :: "'a list \<Rightarrow> 'a list" where
  "uniq array = uniq_into [] array"

text \<open>\<^verbatim>\<open>_.without(array, value)\<close>: a copy of the array with every instance of the value removed.\<close>

definition without :: "'a list \<Rightarrow> 'a \<Rightarrow> 'a list" where
  "without array v = filter (\<lambda>x. x \<noteq> v) array"

text \<open>\<^verbatim>\<open>_.union(a, b)\<close>: the arrays are concatenated and passed to \<^verbatim>\<open>_.uniq\<close>.\<close>

definition union_arrays :: "'a list \<Rightarrow> 'a list \<Rightarrow> 'a list" where
  "union_arrays a b = uniq (a @ b)"

text \<open>
  \<^verbatim>\<open>_.intersection(array, other)\<close> walks the first array; an item is skipped when the
  result contains it already, and pushed when the other array contains it.
\<close>

fun intersection_into :: "'a list \<Rightarrow> 'a list \<Rightarrow> 'a list \<Rightarrow> 'a list" where
  "intersection_into result [] other = result"
| "intersection_into result (item # array) other =
     (if item \<in> set result then intersection_into result array other
      else if item \<in> set other then intersection_into (result @ [item]) array other
      else intersection_into result array other)"

definition intersection :: "'a list \<Rightarrow> 'a list \<Rightarrow> 'a list" where
  "intersection array other = intersection_into [] array other"

section \<open>Scope normalization\<close>

text \<open>
  \<^verbatim>\<open>lib/constants\<close> is not among the sources at hand: the constants the relier reads from it
  are parameters of the model.
\<close>

record constants =
  OAUTH_TRUSTED_PROFILE_SCOPE :: string
  OAUTH_TRUSTED_PROFILE_SCOPE_EXPANSION :: "string list"
  OAUTH_UNTRUSTED_ALLOWED_PERMISSIONS :: "string list"
  OAUTH_PROMPT_CONSENT :: string

datatype oauthError =
    INVALID_PARAMETER string
  | MISSING_PARAMETER string
  | UNKNOWN_CLIENT "jsval option"
  | INCORRECT_REDIRECT
  | SERVICE_ERROR string
  | JS_TYPE_ERROR

definition replaceItemInArray :: "'a list \<Rightarrow> 'a \<Rightarrow> 'a list \<Rightarrow> 'a list" where
  "replaceItemInArray array itemToReplace replaceWith =
     (let without' = without array itemToReplace in
      if length without' \<noteq> length array then union_arrays without' replaceWith
      else array)"

text \<open>
  The guard \<^verbatim>\<open>if (! _.isString)\<close> tests the function \<^verbatim>\<open>_.isString\<close> itself, which is
  always truthy, so its branch is never taken. The emptiness test reads the trimmed
  string; the split reads the string as it was passed in.
\<close>

definition scopeStrToArray :: "string \<Rightarrow> string list" where
  "scopeStrToArray scopes =
     (let trimmedScopes = trim scopes in
      if length trimmedScopes \<noteq> 0 then uniq (split_ws scopes) else [])"

definition sanitizeUntrustedPermissions :: "constants \<Rightarrow> string list \<Rightarrow> string list" where
  "sanitizeUntrustedPermissions C permissions =
     intersection permissions (OAUTH_UNTRUSTED_ALLOWED_PERMISSIONS C)"

definition isTrusted :: "attrs \<Rightarrow> bool" where
  "isTrusted r \<longleftrightarrow> truthy (r ''trusted'')"

definition wantsConsent :: "constants \<Rightarrow> attrs \<Rightarrow> bool" where
  "wantsConsent C r \<longleftrightarrow> r ''prompt'' = Some (JString (OAUTH_PROMPT_CONSENT C))"

text \<open>
  \<^verbatim>\<open>_normalizeScopesAndPermissions\<close>. Calling \<^verbatim>\<open>trim\<close> on a scope that is not a string
  throws a TypeError.
\<close>

definition normalizeScopesAndPermissions :: "constants \<Rightarrow> attrs \<Rightarrow> oauthError + attrs" where
  "normalizeScopesAndPermissions C r =
     (case r ''scope'' of
        Some (JString scope) \<Rightarrow>
          (let permissions0 = scopeStrToArray scope;
               permissions =
                 (if isTrusted r then
                    (if wantsConsent C r then
                       replaceItemInArray permissions0
                         (OAUTH_TRUSTED_PROFILE_SCOPE C)
                         (OAUTH_TRUSTED_PROFILE_SCOPE_EXPANSION C)
                     else permissions0)
                  else sanitizeUntrustedPermissions C permissions0)
           in if length permissions = 0 then Inl (INVALID_PARAMETER ''scope'')
              else Inr (r(''scope'' \<mapsto> JString (join '' '' permissions),
                          ''permissions'' \<mapsto> JArray permissions)))
      | _ \<Rightarrow> Inl JS_TYPE_ERROR)"

section \<open>Schema transform\<close>

text \<open>
  Modelled from the spec: \<^verbatim>\<open>lib/vat\<close> (the validators) and \<^verbatim>\<open>lib/transform\<close>
  (\<^verbatim>\<open>Transform.transformUsingSchema\<close>) are not among the sources at hand. A schema is the
  ordered list of its fields, each with a rule: the values the field accepts, whether
  the field is required, and the name it is renamed to. The format validators (hex
  string, URL, client id, ...) are parameters; the string and boolean validators and
  the modifiers \<^verbatim>\<open>required\<close>, \<^verbatim>\<open>renameTo\<close>, \<^verbatim>\<open>allow\<close> and \<^verbatim>\<open>min\<close> follow section 4.1.
\<close>

record vat =
  vat_hex :: "string \<Rightarrow> bool"
  vat_url :: "string \<Rightarrow> bool"
  vat_accessType :: "string \<Rightarrow> bool"
  vat_clientId :: "string \<Rightarrow> bool"
  vat_codeChallenge :: "string \<Rightarrow> bool"
  vat_codeChallengeMethod :: "string \<Rightarrow> bool"
  vat_keysJwk :: "string \<Rightarrow> bool"
  vat_prompt :: "string \<Rightarrow> bool"

record rule =
  accepts :: "jsval \<Rightarrow> bool"
  isRequired :: bool
  target :: "string option"

text \<open>
  Modelled from the spec: a validator of \<^verbatim>\<open>lib/vat\<close> for a string format; the rule accepts
  the strings of the format and is neither required nor renamed.
\<close>

definition format :: "(string \<Rightarrow> bool) \<Rightarrow> rule" where
  "format p =
     \<lparr>accepts = (\<lambda>v. case v of JString s \<Rightarrow> p s | _ \<Rightarrow> False),
      isRequired = False, target = None\<rparr>"

text \<open>Modelled from the spec: \<^verbatim>\<open>Vat.string()\<close> of \<^verbatim>\<open>lib/vat\<close>, any string.\<close>

definition vstring :: rule where
  "vstring = format (\<lambda>s. True)"

text \<open>Modelled from the spec: \<^verbatim>\<open>Vat.boolean()\<close> of \<^verbatim>\<open>lib/vat\<close>, any boolean.\<close>

definition vboolean :: rule where
  "vboolean =
     \<lparr>accepts = (\<lambda>v. case v of JBoolean b \<Rightarrow> True | _ \<Rightarrow> False),
      isRequired = False, target = None\<rparr>"

text \<open>Modelled from the spec: the modifier \<^verbatim>\<open>required()\<close> of \<^verbatim>\<open>lib/vat\<close>.\<close>

definition required :: "rule \<Rightarrow> rule" where
  "required r = r\<lparr>isRequired := True\<rparr>"

text \<open>Modelled from the spec: the modifier \<^verbatim>\<open>renameTo(name)\<close> of \<^verbatim>\<open>lib/vat\<close>.\<close>

definition renameTo :: "string \<Rightarrow> rule \<Rightarrow> rule" where
  "renameTo name r = r\<lparr>target := Some name\<rparr>"

text \<open>
  Modelled from the spec: the modifier \<^verbatim>\<open>allow(value)\<close> of \<^verbatim>\<open>lib/vat\<close>, which accepts the
  value besides what the rule accepts.
\<close>

definition allow :: "jsval \<Rightarrow> rule \<Rightarrow> rule" where
  "allow v r = r\<lparr>accepts := (\<lambda>x. x = v \<or> accepts r x)\<rparr>"

text \<open>
  Modelled from the spec: the modifier \<^verbatim>\<open>min(n)\<close> of \<^verbatim>\<open>lib/vat\<close>, a minimum length of
  the string.
\<close>

definition minLength :: "nat \<Rightarrow> rule \<Rightarrow> rule" where
  "minLength n r =
     r\<lparr>accepts := (\<lambda>x. accepts r x \<and> (case x of JString s \<Rightarrow> n \<le> length s | _ \<Rightarrow> False))\<rparr>"

type_synonym schema = "(string \<times> rule) list"

text \<open>
  Modelled from the spec: \<^verbatim>\<open>Transform.transformUsingSchema\<close>. The fields are checked in
  the schema's order; an absent required field fails with MISSING_PARAMETER, a present
  value that its rule refuses fails with INVALID_PARAMETER, both naming the source
  field. Fields outside the schema are dropped, accepted values are stored under the
  renamed key.
\<close>

fun transformUsingSchema :: "attrs \<Rightarrow> schema \<Rightarrow> oauthError + attrs" where
  "transformUsingSchema data [] = Inr Map.empty"
| "transformUsingSchema data ((k, r) # rest) =
     (case data k of
        None \<Rightarrow>
          if isRequired r then Inl (MISSING_PARAMETER k)
          else transformUsingSchema data rest
      | Some v \<Rightarrow>
          if accepts r v then
            (case transformUsingSchema data rest of
               Inl e \<Rightarrow> Inl e
             | Inr result \<Rightarrow>
                 Inr (result((case target r of Some name \<Rightarrow> name | None \<Rightarrow> k) \<mapsto> v)))
          else Inl (INVALID_PARAMETER k))"

definition CLIENT_INFO_SCHEMA :: "vat \<Rightarrow> schema" where
  "CLIENT_INFO_SCHEMA V =
     [(''id'', renameTo ''clientId'' (required (format (vat_hex V)))),
      (''image_uri'', renameTo ''imageUri'' (allow (JString []) (format (vat_url V)))),
      (''name'', renameTo ''serviceName'' (minLength 1 (required vstring))),
      (''redirect_uri'', renameTo ''redirectUri'' (required (format (vat_url V)))),
      (''trusted'', required vboolean)]"

definition SIGNIN_SIGNUP_QUERY_PARAM_SCHEMA :: "vat \<Rightarrow> schema" where
  "SIGNIN_SIGNUP_QUERY_PARAM_SCHEMA V =
     [(''access_type'', renameTo ''accessType'' (format (vat_accessType V))),
      (''client_id'', renameTo ''clientId'' (required (format (vat_clientId V)))),
      (''code_challenge'', renameTo ''codeChallenge'' (format (vat_codeChallenge V))),
      (''code_challenge_method'',
         renameTo ''codeChallengeMethod'' (format (vat_codeChallengeMethod V))),
      (''keys_jwk'', renameTo ''keysJwk'' (format (vat_keysJwk V))),
      (''prompt'', format (vat_prompt V)),
      (''redirectTo'', format (vat_url V)),
      (''redirect_uri'', renameTo ''redirectUri'' (format (vat_url V))),
      (''scope'', minLength 1 (required vstring)),
      (''state'', vstring)]"

definition VERIFICATION_INFO_SCHEMA :: "vat \<Rightarrow> schema" where
  "VERIFICATION_INFO_SCHEMA V =
     [(''access_type'', renameTo ''accessType'' (format (vat_accessType V))),
      (''action'', minLength 1 vstring),
      (''client_id'', renameTo ''clientId'' (required (format (vat_clientId V)))),
      (''prompt'', format (vat_prompt V)),
      (''redirect_uri'', renameTo ''redirectUri'' (format (vat_url V))),
      (''scope'', minLength 1 vstring),
      (''service'', format (vat_clientId V)),
      (''state'', minLength 1 vstring)]"

section \<open>Relier resolution flow\<close>

text \<open>
  What the relier is constructed with and reads from its surroundings: the query
  parameters of the request, the OAuth context kept in the session (if any), and the
  client registry. A registry failure carries the error and the keys of the failed
  validation, when the server names them.
\<close>

record rejection =
  cause :: oauthError
  validationKeys :: "string list option"

record env =
  searchParams :: "string \<rightharpoonup> string"
  sessionOauth :: "attrs option"
  getClientInfo :: "jsval option \<Rightarrow> rejection + attrs"

definition getSearchParam :: "env \<Rightarrow> string \<Rightarrow> jsval option" where
  "getSearchParam E name = map_option JString (searchParams E name)"

text \<open>
  Modelled from the spec: \<^verbatim>\<open>importSearchParamsUsingSchema\<close> belongs to the base relier,
  which is not among the sources at hand. The query parameters go through the schema
  transform and the result is set on the relier.
\<close>

definition importSearchParamsUsingSchema :: "env \<Rightarrow> schema \<Rightarrow> attrs \<Rightarrow> oauthError + attrs" where
  "importSearchParamsUsingSchema E sch r =
     (case transformUsingSchema (getSearchParam E) sch of
        Inl e \<Rightarrow> Inl e
      | Inr result \<Rightarrow> Inr (r ++ result))"

definition isVerificationFlow :: "env \<Rightarrow> bool" where
  "isVerificationFlow E \<longleftrightarrow> truthy (getSearchParam E ''code'')"

definition setupVerificationFlow :: "vat \<Rightarrow> env \<Rightarrow> attrs \<Rightarrow> oauthError + attrs" where
  "setupVerificationFlow V E r =
     (let resumeObj =
            (case sessionOauth E of
               Some obj \<Rightarrow> obj
             | None \<Rightarrow>
                 (\<lambda>k. if k = ''client_id'' \<or> k = ''service''
                      then getSearchParam E ''service'' else None))
      in case transformUsingSchema resumeObj (VERIFICATION_INFO_SCHEMA V) of
           Inl e \<Rightarrow> Inl e
         | Inr result \<Rightarrow> Inr (r ++ result))"

definition setupSignInSignUpFlow :: "vat \<Rightarrow> env \<Rightarrow> attrs \<Rightarrow> oauthError + attrs" where
  "setupSignInSignUpFlow V E r =
     (case importSearchParamsUsingSchema E (SIGNIN_SIGNUP_QUERY_PARAM_SCHEMA V) r of
        Inl e \<Rightarrow> Inl e
      | Inr r' \<Rightarrow>
          if truthy (getSearchParam E ''service'') then Inl (INVALID_PARAMETER ''service'')
          else Inr r')"

definition isUnknownClient :: "rejection \<Rightarrow> bool" where
  "isUnknownClient err \<longleftrightarrow>
     (case cause err of INVALID_PARAMETER f \<Rightarrow> True | _ \<Rightarrow> False) \<and>
     (case validationKeys err of Some (k # ks) \<Rightarrow> k = ''client_id'' | _ \<Rightarrow> False)"

definition setupOAuthRPInfo :: "vat \<Rightarrow> env \<Rightarrow> bool \<Rightarrow> attrs \<Rightarrow> oauthError + attrs" where
  "setupOAuthRPInfo V E verificationFlow r =
     (let clientId = r ''clientId'';
          queryRedirectUri = r ''redirectUri''
      in case getClientInfo E clientId of
           Inr serviceInfo \<Rightarrow>
             (case transformUsingSchema serviceInfo (CLIENT_INFO_SCHEMA V) of
                Inl e \<Rightarrow> Inl e
              | Inr result \<Rightarrow>
                  if \<not> verificationFlow \<and> result ''redirectUri'' \<noteq> queryRedirectUri
                  then Inl INCORRECT_REDIRECT
                  else Inr (r ++ result))
         | Inl err \<Rightarrow>
             if isUnknownClient err then Inl (UNKNOWN_CLIENT clientId)
             else Inl (cause err))"

text \<open>
  \<^verbatim>\<open>fetch\<close>, from the point where the base relier's own fetch has resolved: \<open>r\<close> holds the
  attributes the base relier has set.
\<close>

definition fetch :: "constants \<Rightarrow> vat \<Rightarrow> env \<Rightarrow> attrs \<Rightarrow> oauthError + attrs" where
  "fetch C V E r =
     (case (if isVerificationFlow E then setupVerificationFlow V E r
            else setupSignInSignUpFlow V E r) of
        Inl e \<Rightarrow> Inl e
      | Inr r1 \<Rightarrow>
          (let r2 = (if \<not> has r1 ''service'' then r1(''service'' := r1 ''clientId'') else r1)
           in case setupOAuthRPInfo V E (isVerificationFlow E) r2 of
                Inl e \<Rightarrow> Inl e
              | Inr r3 \<Rightarrow>
                  if has r3 ''scope'' then normalizeScopesAndPermissions C r3
                  else Inr r3))"

section \<open>Sign-in\<close>

text \<open>
  \<^verbatim>\<open>app/scripts/views/mixins/signin-mixin.js\<close>.

  Modelled from the spec: the modules \<^verbatim>\<open>lib/verification-methods\<close>,
  \<^verbatim>\<open>lib/verification-reasons\<close> and \<^verbatim>\<open>lib/auth-errors\<close> are not among the sources at hand.
  Their members that the mixin names are constructors, and any other value is the last
  constructor of each type.
\<close>

datatype VerificationMethods = EMAIL | EMAIL_2FA | EMAIL_CAPTCHA | TOTP_2FA | OTHER_METHOD string

datatype VerificationReasons = SIGN_IN | OTHER_REASON string

datatype authErrorKind =
    UNEXPECTED_ERROR
  | THROTTLED
  | REQUEST_BLOCKED
  | EMAIL_HARD_BOUNCE
  | EMAIL_SENT_COMPLAINT
  | OTHER_AUTH_ERROR string

record authError =
  kind :: authErrorKind
  errVerificationReason :: "VerificationReasons option"
  errVerificationMethod :: "VerificationMethods option"

definition toError :: "authErrorKind \<Rightarrow> authError" where
  "toError k = \<lparr>kind = k, errVerificationReason = None, errVerificationMethod = None\<rparr>"

text \<open>The account, with the attributes and predicates the mixin reads.\<close>

record account =
  isDefault :: bool
  sessionToken :: "string option"
  verified :: bool
  verificationMethod :: "VerificationMethods option"
  verificationReason :: "VerificationReasons option"
  uid :: "string option"
  email :: "string option"

record signInOptions =
  resume :: string
  unblockCode :: "string option"
  optVerificationMethod :: "VerificationMethods option"

text \<open>The data handed to \<^verbatim>\<open>navigate\<close> with the name of a screen.\<close>

datatype navData =
    PermissionsData account
  | UnblockData account string "string option"
  | BouncedData "string option"
  | AccountData account

text \<open>What the view does to its surroundings, in the order it does it.\<close>

datatype effect =
    InvokeBrokerMethod string account
  | LogFlowEvent string string
  | DiscardSessionToken
  | SignInAccount account "string option" signInOptions
  | FormPrefillClear
  | NavigateTo string navData
  | SendUnblockEmail account
  | LogEvent string
  | LogViewEvent string
  | SetBehavior string string "string option"

datatype outcome = Navigated string navData | BrokerDone string

text \<open>
  The view: its relier, the capabilities of its broker, the experiment hook
  (\<open>None\<close> when the view has no \<^verbatim>\<open>getTokenCodeExperimentGroup\<close>, otherwise the group it
  returns), whether it has a form prefill, the \<^verbatim>\<open>redirectTo\<close> of its model, the
  overrides of the post-sign-in broker method and of its navigation data (\<open>None\<close> is
  the empty object), the current page, and the effects so far.
\<close>

record view =
  relier :: attrs
  brokerCapabilities :: "string set"
  tokenCodeExperimentGroup :: "string option option"
  formPrefill :: bool
  redirectTo :: "string option"
  afterSignInBrokerMethod :: "string option"
  afterSignInNavigateData :: "string option"
  currentPage :: string
  effects :: "effect list"

text \<open>
  The collaborators whose code is elsewhere: the broker's methods, the user's
  \<^verbatim>\<open>signInAccount\<close>, the account's \<^verbatim>\<open>sendUnblockEmail\<close> (\<open>None\<close> when the send succeeds),
  \<^verbatim>\<open>getPermissionsWithValues\<close> and \<^verbatim>\<open>hasSeenPermissions\<close>, and the resume token. Each
  promise is the value it settles with: \<open>Inl\<close> a rejection, \<open>Inr\<close> a resolution.
\<close>

record services =
  invokeBrokerMethod :: "view \<Rightarrow> string \<Rightarrow> account \<Rightarrow> authError + string"
  signInAccount :: "account \<Rightarrow> string option \<Rightarrow> attrs \<Rightarrow> signInOptions \<Rightarrow> authError + account"
  sendUnblockEmail :: "account \<Rightarrow> authError option"
  getStringifiedResumeToken :: "account \<Rightarrow> string"
  getPermissionsWithValues :: "account \<Rightarrow> jsval option \<Rightarrow> string list"
  hasSeenPermissions :: "account \<Rightarrow> jsval option \<Rightarrow> string list \<Rightarrow> bool"

text \<open>\<^verbatim>\<open>accountNeedsPermissions\<close> of the OAuth relier.\<close>

definition accountNeedsPermissions :: "constants \<Rightarrow> services \<Rightarrow> attrs \<Rightarrow> account \<Rightarrow> bool" where
  "accountNeedsPermissions C S r acct =
     (if isTrusted r \<and> \<not> wantsConsent C r then False
      else
        (let applicableProfilePermissions = getPermissionsWithValues S acct (r ''permissions'')
         in \<not> hasSeenPermissions S acct (r ''clientId'') applicableProfilePermissions))"

definition emit :: "effect \<Rightarrow> view \<Rightarrow> view" where
  "emit e v = v\<lparr>effects := effects v @ [e]\<rparr>"

definition navigate :: "view \<Rightarrow> string \<Rightarrow> navData \<Rightarrow> (authError + outcome) \<times> view" where
  "navigate v screen d = (Inr (Navigated screen d), emit (NavigateTo screen d) v)"

definition onSignInBlocked ::
  "services \<Rightarrow> view \<Rightarrow> account \<Rightarrow> string option \<Rightarrow> authError \<Rightarrow> (authError + outcome) \<times> view" where
  "onSignInBlocked S v acct password err =
     (if errVerificationReason err = Some SIGN_IN \<and>
         errVerificationMethod err = Some EMAIL_CAPTCHA then
        (let v1 = emit (SendUnblockEmail acct) v
         in case sendUnblockEmail S acct of
              Some sendErr \<Rightarrow> (Inl sendErr, v1)
            | None \<Rightarrow> navigate v1 ''signin_unblock'' (UnblockData acct (currentPage v1) password))
      else (Inl err, v))"

definition onSignInSuccess ::
  "services \<Rightarrow> view \<Rightarrow> account \<Rightarrow> (authError + outcome) \<times> view" where
  "onSignInSuccess S v acct =
     (if \<not> verified acct then
        (if verificationReason acct = Some SIGN_IN \<and> verificationMethod acct = Some EMAIL
         then navigate v ''confirm_signin'' (AccountData acct)
         else if verificationReason acct = Some SIGN_IN \<and>
                 verificationMethod acct = Some EMAIL_2FA
         then navigate v ''signin_token_code'' (AccountData acct)
         else if verificationReason acct = Some SIGN_IN \<and>
                 verificationMethod acct = Some TOTP_2FA
         then navigate v ''signin_totp_code'' (AccountData acct)
         else navigate v ''confirm'' (AccountData acct))
      else
        (let v1 = (if map_option JString (uid acct) \<noteq> relier v ''uid'' \<and>
                      ''allowUidChange'' \<in> brokerCapabilities v
                   then v\<lparr>relier := (relier v)(''uid'' := map_option JString (uid acct))\<rparr>
                   else v);
             v2 = emit (LogEvent ''signin.success'') v1;
             v3 = emit (LogEvent ''signin.success.skip-confirm'') v2;
             v4 = emit (LogViewEvent ''signin.success'') v3;
             brokerMethod =
               (case afterSignInBrokerMethod v4 of
                  Some m \<Rightarrow> if m \<noteq> [] then m else ''afterSignIn''
                | None \<Rightarrow> ''afterSignIn'');
             navigateData = afterSignInNavigateData v4;
             v5 = (case redirectTo v4 of
                     Some t \<Rightarrow>
                       if t \<noteq> []
                       then emit (SetBehavior brokerMethod t navigateData)
                              (v4\<lparr>redirectTo := None\<rparr>)
                       else v4
                   | None \<Rightarrow> v4);
             v6 = emit (InvokeBrokerMethod brokerMethod acct) v5
         in (case invokeBrokerMethod S v5 brokerMethod acct of
               Inl err \<Rightarrow> Inl err
             | Inr result \<Rightarrow> Inr (BrokerDone result),
             v6)))"

text \<open>The handler that \<^verbatim>\<open>signIn\<close> installs with \<^verbatim>\<open>.catch\<close> on its promise chain.\<close>

definition signInCatch ::
  "services \<Rightarrow> view \<Rightarrow> account \<Rightarrow> string option \<Rightarrow> authError \<Rightarrow> (authError + outcome) \<times> view" where
  "signInCatch S v acct password err =
     (if kind err = THROTTLED \<or> kind err = REQUEST_BLOCKED then
        onSignInBlocked S v acct password err
      else if kind err = EMAIL_HARD_BOUNCE \<or> kind err = EMAIL_SENT_COMPLAINT then
        navigate v ''signin_bounced'' (BouncedData (email acct))
      else (Inl err, v))"

text \<open>
  The first continuation of \<^verbatim>\<open>signIn\<close>, run once \<^verbatim>\<open>beforeSignIn\<close> has resolved: it
  settles with what \<^verbatim>\<open>signInAccount\<close> settles with. Discarding the session token changes
  the account that the later steps and the handler see, so the account is returned
  with the view.
\<close>

definition signInAttempt ::
  "services \<Rightarrow> view \<Rightarrow> account \<Rightarrow> string option \<Rightarrow> string option \<Rightarrow>
     (authError + account) \<times> view \<times> account" where
  "signInAttempt S v acct password unblock =
     (let v2 = emit (LogFlowEvent ''attempt'' ''signin'') v;
          method =
            (case tokenCodeExperimentGroup v2 of
               Some (Some g) \<Rightarrow>
                 if g = ''treatment-code'' then Some EMAIL_2FA
                 else if g = ''treatment-link'' then Some EMAIL
                 else None
             | _ \<Rightarrow> None);
          discard = (sessionToken acct \<noteq> None \<and>
                     ''reuseExistingSession'' \<notin> brokerCapabilities v2);
          acct1 = (if discard then acct\<lparr>sessionToken := None\<rparr> else acct);
          v3 = (if discard then emit DiscardSessionToken v2 else v2);
          opts = \<lparr>resume = getStringifiedResumeToken S acct1,
                  unblockCode = unblock,
                  optVerificationMethod = method\<rparr>;
          v4 = emit (SignInAccount acct1 password opts) v3
      in (signInAccount S acct1 password (relier v4) opts, v4, acct1))"

text \<open>The second continuation, run with the account that \<^verbatim>\<open>signInAccount\<close> resolved with.\<close>

definition signInResolved ::
  "constants \<Rightarrow> services \<Rightarrow> view \<Rightarrow> account \<Rightarrow> (authError + outcome) \<times> view" where
  "signInResolved C S v acct =
     (let v5 = (if formPrefill v then emit FormPrefillClear v else v)
      in if accountNeedsPermissions C S (relier v5) acct
         then navigate v5 ''signin_permissions'' (PermissionsData acct)
         else onSignInSuccess S v5 acct)"

text \<open>
  \<^verbatim>\<open>signIn\<close>. A missing password is \<open>None\<close>; an empty one is falsy as well. A rejection
  of any step of the chain reaches the handler.
\<close>

definition signIn ::
  "constants \<Rightarrow> services \<Rightarrow> view \<Rightarrow> account option \<Rightarrow> string option \<Rightarrow> string option \<Rightarrow>
     (authError + outcome) \<times> view" where
  "signIn C S v account password unblock =
     (case account of
        None \<Rightarrow> (Inl (toError UNEXPECTED_ERROR), v)
      | Some acct \<Rightarrow>
          if isDefault acct \<or>
             (sessionToken acct = None \<and> (password = None \<or> password = Some []))
          then (Inl (toError UNEXPECTED_ERROR), v)
          else
            (let v1 = emit (InvokeBrokerMethod ''beforeSignIn'' acct) v
             in case invokeBrokerMethod S v ''beforeSignIn'' acct of
                  Inl err \<Rightarrow> signInCatch S v1 acct password err
                | Inr done \<Rightarrow>
                    (case signInAttempt S v1 acct password unblock of
                       (Inl err, v4, acct1) \<Rightarrow> signInCatch S v4 acct1 password err
                     | (Inr acct2, v4, acct1) \<Rightarrow>
                         (let res = signInResolved C S v4 acct2
                          in case fst res of
                               Inl err \<Rightarrow> signInCatch S (snd res) acct1 password err
                             | Inr out \<Rightarrow> res))))"

section \<open>Example configurations\<close>

text \<open>Concrete constants, reliers, requests and collaborators, for the closed theorems below.\<close>

definition exampleConstants :: constants where
  "exampleConstants =
     \<lparr>OAUTH_TRUSTED_PROFILE_SCOPE = ''profile'',
      OAUTH_TRUSTED_PROFILE_SCOPE_EXPANSION = [''profile:uid'', ''profile:email''],
      OAUTH_UNTRUSTED_ALLOWED_PERMISSIONS = [''profile''],
      OAUTH_PROMPT_CONSENT = ''consent''\<rparr>"

definition noAttributes :: attrs where
  "noAttributes = Map.empty"

definition trustedConsentRelier :: "string \<Rightarrow> attrs" where
  "trustedConsentRelier s =
     [''trusted'' \<mapsto> JBoolean True, ''prompt'' \<mapsto> JString ''consent'', ''scope'' \<mapsto> JString s]"

definition trustedRelier :: "string \<Rightarrow> attrs" where
  "trustedRelier s = [''trusted'' \<mapsto> JBoolean True, ''scope'' \<mapsto> JString s]"

definition untrustedRelier :: "string \<Rightarrow> attrs" where
  "untrustedRelier s = [''trusted'' \<mapsto> JBoolean False, ''scope'' \<mapsto> JString s]"

definition anyFormat :: vat where
  "anyFormat =
     \<lparr>vat_hex = (\<lambda>s. True), vat_url = (\<lambda>s. True), vat_accessType = (\<lambda>s. True),
      vat_clientId = (\<lambda>s. True), vat_codeChallenge = (\<lambda>s. True),
      vat_codeChallengeMethod = (\<lambda>s. True), vat_keysJwk = (\<lambda>s. True),
      vat_prompt = (\<lambda>s. True)\<rparr>"

definition exampleClientInfo :: attrs where
  "exampleClientInfo =
     [''id'' \<mapsto> JString ''dcdb5ae7add825d2'', ''name'' \<mapsto> JString ''123done'',
      ''redirect_uri'' \<mapsto> JString ''https://rp.example/cb'',
      ''trusted'' \<mapsto> JBoolean True]"

definition exampleRegistry :: "jsval option \<Rightarrow> rejection + attrs" where
  "exampleRegistry clientId = Inr exampleClientInfo"

definition exampleEnv :: "(string \<times> string) list \<Rightarrow> attrs option \<Rightarrow> env" where
  "exampleEnv params session =
     \<lparr>searchParams = map_of params, sessionOauth = session, getClientInfo = exampleRegistry\<rparr>"

definition exampleResume :: attrs where
  "exampleResume =
     [''client_id'' \<mapsto> JString ''dcdb5ae7add825d2'',
      ''redirect_uri'' \<mapsto> JString ''https://other.example/cb'',
      ''scope'' \<mapsto> JString ''profile'']"

definition exampleServices :: "(authError + account) \<Rightarrow> authError option \<Rightarrow> services" where
  "exampleServices signInResult unblockResult =
     \<lparr>invokeBrokerMethod = (\<lambda>v m a. Inr m),
      signInAccount = (\<lambda>a p r opts. signInResult),
      sendUnblockEmail = (\<lambda>a. unblockResult),
      getStringifiedResumeToken = (\<lambda>a. ''resume''),
      getPermissionsWithValues = (\<lambda>a p. case p of Some (JArray ps) \<Rightarrow> ps | _ \<Rightarrow> []),
      hasSeenPermissions = (\<lambda>a c ps. ps = [])\<rparr>"

definition exampleView :: "attrs \<Rightarrow> view" where
  "exampleView r =
     \<lparr>relier = r, brokerCapabilities = {}, tokenCodeExperimentGroup = None,
      formPrefill = False, redirectTo = None, afterSignInBrokerMethod = None,
      afterSignInNavigateData = None, currentPage = ''signin'', effects = []\<rparr>"

definition exampleAccount :: "bool \<Rightarrow> account" where
  "exampleAccount isVerified =
     \<lparr>isDefault = False, sessionToken = None, verified = isVerified,
      verificationMethod = Some EMAIL_2FA, verificationReason = Some SIGN_IN,
      uid = Some ''uid-1'', email = Some ''user@example.com''\<rparr>"

definition blockedError :: "authErrorKind \<Rightarrow> authError" where
  "blockedError k =
     \<lparr>kind = k, errVerificationReason = Some SIGN_IN,
      errVerificationMethod = Some EMAIL_CAPTCHA\<rparr>"


section \<open>Facts about the list functions\<close>

lemma remdups_drop_later: "x \<in> set zs \<Longrightarrow> remdups (ys @ x # zs) = remdups (ys @ zs)"
  by (induction ys) auto

lemma uniq_into_remdups:
  "distinct acc \<Longrightarrow> uniq_into acc xs = rev (remdups (rev (acc @ xs)))"
proof (induction xs arbitrary: acc)
  case Nil
  then show ?case by (simp add: distinct_remdups_id)
next
  case (Cons x xs)
  show ?case
  proof (cases "x \<in> set acc")
    case True
    then have "remdups (rev xs @ x # rev acc) = remdups (rev xs @ rev acc)"
      by (simp add: remdups_drop_later)
    with True Cons show ?thesis by simp
  next
    case False
    with Cons.prems have "distinct (acc @ [x])" by simp
    from Cons.IH [OF this] False show ?thesis by simp
  qed
qed

lemma uniq_remdups: "uniq xs = rev (remdups (rev xs))"
  using uniq_into_remdups [of "[]" xs] by (simp add: uniq_def)

lemma distinct_uniq: "distinct (uniq xs)"
  by (simp add: uniq_remdups)


lemma uniq_distinct_id: "distinct xs \<Longrightarrow> uniq xs = xs"
  by (simp add: uniq_remdups distinct_remdups_id)

lemma remdups_append_filter:
  "remdups (xs @ ys) = remdups (filter (\<lambda>x. x \<notin> set ys) xs) @ remdups ys"
  by (induction xs) auto

lemma uniq_append:
  "uniq (xs @ ys) = uniq xs @ uniq (filter (\<lambda>y. y \<notin> set xs) ys)"
proof -
  have "remdups (rev ys @ rev xs) =
        remdups (filter (\<lambda>y. y \<notin> set xs) (rev ys)) @ remdups (rev xs)"
    using remdups_append_filter [of "rev ys" "rev xs"] by simp
  then show ?thesis
    by (simp add: uniq_remdups rev_filter remdups_filter)
qed


lemma intersection_into_filter:
  "distinct (acc @ xs) \<Longrightarrow>
     intersection_into acc xs other = acc @ filter (\<lambda>x. x \<in> set other) xs"
  by (induction xs arbitrary: acc) auto

lemma intersection_filter:
  "distinct xs \<Longrightarrow> intersection xs other = filter (\<lambda>x. x \<in> set other) xs"
  using intersection_into_filter [of "[]" xs other] by (simp add: intersection_def)

lemma without_length: "length (without ps item) \<noteq> length ps \<longleftrightarrow> item \<in> set ps"
proof -
  have "length (filter (\<lambda>x. x \<noteq> item) ps) = length ps \<longleftrightarrow> (\<forall>x\<in>set ps. x \<noteq> item)"
  proof (induction ps)
    case Nil
    show ?case by simp
  next
    case (Cons a ps)
    have "length (filter (\<lambda>x. x \<noteq> item) ps) \<noteq> Suc (length ps)"
      using length_filter_le [of "\<lambda>x. x \<noteq> item" ps] by arith
    with Cons show ?case by auto
  qed
  then show ?thesis by (auto simp: without_def)
qed

lemma replaceItemInArray_eq:
  "distinct ps \<Longrightarrow>
     replaceItemInArray ps item ex =
       (if item \<in> set ps
        then without ps item @ uniq (filter (\<lambda>t. t \<notin> set (without ps item)) ex)
        else ps)"
  by (simp add: replaceItemInArray_def Let_def without_length union_arrays_def uniq_append
      uniq_distinct_id) (simp add: without_def uniq_distinct_id)

lemma distinct_replaceItemInArray:
  "distinct ps \<Longrightarrow> distinct (replaceItemInArray ps item ex)"
  by (simp add: replaceItemInArray_def Let_def union_arrays_def distinct_uniq)

section \<open>Facts about scope normalization\<close>

lemma distinct_scopeStrToArray: "distinct (scopeStrToArray s)"
  by (simp add: scopeStrToArray_def Let_def distinct_uniq)


lemma scopeStrToArray_example: "scopeStrToArray ''a b a c'' = [''a'', ''b'', ''c'']"
  by (simp add: scopeStrToArray_def trim_def isSpaceChar_def split_ws_def uniq_def)

lemma normalize_not_redirect: "normalizeScopesAndPermissions C r \<noteq> Inl INCORRECT_REDIRECT"
  by (simp add: normalizeScopesAndPermissions_def Let_def split: option.splits jsval.splits)









lemma normalize_policy:
  assumes "r ''scope'' = Some (JString s)"
  shows "normalizeScopesAndPermissions C r =
           (let permissions =
                  (if isTrusted r then
                     (if wantsConsent C r then
                        replaceItemInArray (scopeStrToArray s) (OAUTH_TRUSTED_PROFILE_SCOPE C)
                          (OAUTH_TRUSTED_PROFILE_SCOPE_EXPANSION C)
                      else scopeStrToArray s)
                   else filter (\<lambda>t. t \<in> set (OAUTH_UNTRUSTED_ALLOWED_PERMISSIONS C))
                          (scopeStrToArray s))
            in if permissions = [] then Inl (INVALID_PARAMETER ''scope'')
               else Inr (r(''scope'' \<mapsto> JString (join '' '' permissions),
                           ''permissions'' \<mapsto> JArray permissions)))"
  using assms
  by (simp add: normalizeScopesAndPermissions_def Let_def sanitizeUntrustedPermissions_def
      intersection_filter distinct_scopeStrToArray)













lemmas normalize_defs =
  scopeStrToArray_def trim_def isSpaceChar_def split_ws_def uniq_def
  replaceItemInArray_def without_def union_arrays_def intersection_def
  sanitizeUntrustedPermissions_def isTrusted_def wantsConsent_def
  normalizeScopesAndPermissions_def exampleConstants_def trustedConsentRelier_def
  trustedRelier_def untrustedRelier_def

lemmas schema_defs =
  SIGNIN_SIGNUP_QUERY_PARAM_SCHEMA_def VERIFICATION_INFO_SCHEMA_def CLIENT_INFO_SCHEMA_def
  format_def vstring_def vboolean_def required_def renameTo_def allow_def minLength_def
  anyFormat_def

lemmas flow_defs =
  fetch_def isVerificationFlow_def getSearchParam_def setupSignInSignUpFlow_def
  setupVerificationFlow_def setupOAuthRPInfo_def importSearchParamsUsingSchema_def
  exampleEnv_def exampleRegistry_def exampleClientInfo_def exampleResume_def
  noAttributes_def has_def isUnknownClient_def

text \<open>
  The hypotheses on the edges of the scope cannot be dropped. The emptiness test of
  \<^verbatim>\<open>scopeStrToArray\<close> reads the trimmed string, but the split reads the string as passed
  in: white space at an edge yields an empty token, and an empty token in the middle
  of a stored list does not survive a second normalization.
\<close>

lemma scopeStrToArray_untrimmed:
  "scopeStrToArray '' a b'' = [[], ''a'', ''b'']"
  by (simp add: scopeStrToArray_def trim_def isSpaceChar_def split_ws_def uniq_def)

lemma renormalize_untrimmed:
  "normalizeScopesAndPermissions exampleConstants (trustedConsentRelier ''profile a '') =
     Inr ((trustedConsentRelier ''profile a '')
            (''scope'' \<mapsto> JString ''a  profile:uid profile:email'',
             ''permissions'' \<mapsto> JArray [''a'', [], ''profile:uid'', ''profile:email''])) \<and>
   normalizeScopesAndPermissions exampleConstants
       ((trustedConsentRelier ''profile a '')
            (''scope'' \<mapsto> JString ''a  profile:uid profile:email'',
             ''permissions'' \<mapsto> JArray [''a'', [], ''profile:uid'', ''profile:email''])) =
     Inr ((trustedConsentRelier ''profile a '')
            (''scope'' \<mapsto> JString ''a profile:uid profile:email'',
             ''permissions'' \<mapsto> JArray [''a'', ''profile:uid'', ''profile:email'']))"
  by (simp add: normalize_defs)

section \<open>Facts about the effects of sign-in\<close>

lemma emit_simps:
  "effects (emit e v) = effects v @ [e]"
  "relier (emit e v) = relier v"
  "redirectTo (emit e v) = redirectTo v"
  "afterSignInBrokerMethod (emit e v) = afterSignInBrokerMethod v"
  "afterSignInNavigateData (emit e v) = afterSignInNavigateData v"
  "brokerCapabilities (emit e v) = brokerCapabilities v"
  "formPrefill (emit e v) = formPrefill v"
  "currentPage (emit e v) = currentPage v"
  "tokenCodeExperimentGroup (emit e v) = tokenCodeExperimentGroup v"
  by (simp_all add: emit_def)

lemma success_effects:
  "(NavigateTo ''signin_permissions'' d \<in> set (effects (snd (onSignInSuccess S v acct)))) =
   (NavigateTo ''signin_permissions'' d \<in> set (effects v))"
proof (cases "verified acct")
  case False
  then show ?thesis by (simp add: onSignInSuccess_def navigate_def emit_simps)
next
  case True
  show ?thesis
  proof (cases "redirectTo v")
    case None
    with True show ?thesis
      by (simp add: onSignInSuccess_def Let_def emit_simps)
  next
    case (Some t)
    with True show ?thesis
      by (cases "t = []") (simp_all add: onSignInSuccess_def Let_def emit_simps)
  qed
qed

lemma success_outcome:
  "fst (onSignInSuccess S v acct) \<noteq> Inr (Navigated ''signin_permissions'' d)"
  by (simp add: onSignInSuccess_def navigate_def Let_def split: sum.splits)

lemma catch_effects:
  "(NavigateTo ''signin_permissions'' d \<in> set (effects (snd (signInCatch S v acct pw err)))) =
   (NavigateTo ''signin_permissions'' d \<in> set (effects v))"
  by (simp add: signInCatch_def onSignInBlocked_def navigate_def emit_simps Let_def
      split: option.splits)

lemma catch_outcome:
  "fst (signInCatch S v acct pw err) \<noteq> Inr (Navigated ''signin_permissions'' d)"
  by (simp add: signInCatch_def onSignInBlocked_def navigate_def Let_def split: option.splits)

lemma attempt_effects:
  assumes "signInAttempt S v acct pw unblock = (res, v4, acct1)"
  shows "relier v4 = relier v \<and> formPrefill v4 = formPrefill v \<and>
         ((NavigateTo ''signin_permissions'' d \<in> set (effects v4)) =
          (NavigateTo ''signin_permissions'' d \<in> set (effects v)))"
proof -
  from assms
  have "\<exists>es. v4 = v\<lparr>effects := effects v @ es\<rparr> \<and>
              NavigateTo ''signin_permissions'' d \<notin> set es"
    by (cases "sessionToken acct \<noteq> None \<and> ''reuseExistingSession'' \<notin> brokerCapabilities v")
       (auto simp: signInAttempt_def Let_def emit_def)
  then show ?thesis by auto
qed

lemma resolved_trusted:
  assumes "isTrusted (relier v)" and "\<not> wantsConsent C (relier v)"
  shows "fst (signInResolved C S v acct) \<noteq> Inr (Navigated ''signin_permissions'' d) \<and>
         ((NavigateTo ''signin_permissions'' d
             \<in> set (effects (snd (signInResolved C S v acct)))) =
          (NavigateTo ''signin_permissions'' d \<in> set (effects v)))"
  using assms
  by (simp add: signInResolved_def Let_def accountNeedsPermissions_def emit_simps
      success_effects success_outcome)

lemma signIn_trusted_no_permissions_screen:
  assumes "isTrusted (relier v)" and "\<not> wantsConsent C (relier v)"
  shows "fst (signIn C S v account pw unblock) \<noteq> Inr (Navigated ''signin_permissions'' d) \<and>
         ((NavigateTo ''signin_permissions'' d
             \<in> set (effects (snd (signIn C S v account pw unblock)))) =
          (NavigateTo ''signin_permissions'' d \<in> set (effects v)))"
proof (cases account)
  case None
  then show ?thesis by (simp add: signIn_def)
next
  case (Some acct)
  let ?v1 = "emit (InvokeBrokerMethod ''beforeSignIn'' acct) v"
  obtain res v4 acct1 where att: "signInAttempt S ?v1 acct pw unblock = (res, v4, acct1)"
    by (cases "signInAttempt S ?v1 acct pw unblock") auto
  from attempt_effects [OF att, of d]
  have v4: "relier v4 = relier v"
    "(NavigateTo ''signin_permissions'' d \<in> set (effects v4)) =
     (NavigateTo ''signin_permissions'' d \<in> set (effects v))"
    by (simp_all add: emit_simps)
  from assms v4 have tr: "isTrusted (relier v4)" "\<not> wantsConsent C (relier v4)" by simp_all
  note rs = resolved_trusted [OF tr, of S _ d]
  show ?thesis
    using Some att v4 rs
    by (auto simp: signIn_def Let_def emit_simps catch_effects catch_outcome
        split: sum.splits)
qed

lemma unverified_resolves:
  "\<not> verified acct \<Longrightarrow> \<exists>out. fst (onSignInSuccess S w acct) = Inr out"
  by (simp add: onSignInSuccess_def navigate_def)

lemma signIn_resolves:
  assumes "\<not> isDefault a" and "sessionToken a \<noteq> None \<or> (pw \<noteq> None \<and> pw \<noteq> Some [])"
      and "invokeBrokerMethod S v0 ''beforeSignIn'' a = Inr done"
      and "signInAttempt S (emit (InvokeBrokerMethod ''beforeSignIn'' a) v0) a pw unblock =
             (Inr acct, v4, a1)"
      and "\<not> accountNeedsPermissions C S (relier v4) acct"
      and "\<not> verified acct"
  shows "signIn C S v0 (Some a) pw unblock =
           onSignInSuccess S (if formPrefill v4 then emit FormPrefillClear v4 else v4) acct"
proof -
  let ?v5 = "if formPrefill v4 then emit FormPrefillClear v4 else v4"
  have rel: "relier ?v5 = relier v4" by (simp add: emit_simps)
  from unverified_resolves [OF assms(6), of S ?v5] obtain out where
    nav: "fst (onSignInSuccess S ?v5 acct) = Inr out" by blast
  have res: "signInResolved C S v4 acct = onSignInSuccess S ?v5 acct"
    using assms(5) rel by (simp add: signInResolved_def Let_def)
  have "signIn C S v0 (Some a) pw unblock = signInResolved C S v4 acct"
    using assms(1-4) nav by (auto simp: signIn_def Let_def res)
  with res show ?thesis by simp
qed







lemmas signin_defs =
  signIn_def signInAttempt_def signInResolved_def signInCatch_def onSignInBlocked_def
  onSignInSuccess_def navigate_def emit_def accountNeedsPermissions_def toError_def
  exampleServices_def exampleView_def exampleAccount_def blockedError_def
  isTrusted_def wantsConsent_def

section \<open>Claims about scope normalization\<close>

text \<open>
  Claim C1, as the code has it. For a permission list without duplicates,
  \<^verbatim>\<open>replaceItemInArray\<close> leaves a list that lacks the token as it is; otherwise it removes
  the token, keeps the other tokens in their order, and appends at the end, in the
  order of the expansion and once each, the expansion tokens that are not among them.
  The result has no duplicates. For a trusted relier that wants consent, normalization
  stores this list (and fails when it is empty).
\<close>

theorem profile_expansion_appended:
  "(distinct ps \<longrightarrow>
      replaceItemInArray ps item ex =
        (if item \<in> set ps
         then filter (\<lambda>t. t \<noteq> item) ps @ uniq (filter (\<lambda>t. t \<notin> set ps \<or> t = item) ex)
         else ps) \<and>
      distinct (replaceItemInArray ps item ex)) \<and>
   (r ''scope'' = Some (JString s) \<and> isTrusted r \<and> wantsConsent C r \<longrightarrow>
      normalizeScopesAndPermissions C r =
        (let permissions =
               replaceItemInArray (scopeStrToArray s) (OAUTH_TRUSTED_PROFILE_SCOPE C)
                 (OAUTH_TRUSTED_PROFILE_SCOPE_EXPANSION C)
         in if permissions = [] then Inl (INVALID_PARAMETER ''scope'')
            else Inr (r(''scope'' \<mapsto> JString (join '' '' permissions),
                        ''permissions'' \<mapsto> JArray permissions))))"
proof (intro conjI impI)
  assume d: "distinct ps"
  have "(\<lambda>t. t \<notin> set (without ps item)) = (\<lambda>t. t \<notin> set ps \<or> t = item)"
    by (auto simp: without_def)
  with replaceItemInArray_eq [OF d, of item ex]
  show "replaceItemInArray ps item ex =
        (if item \<in> set ps
         then filter (\<lambda>t. t \<noteq> item) ps @ uniq (filter (\<lambda>t. t \<notin> set ps \<or> t = item) ex)
         else ps)"
    by (simp add: without_def)
  from d show "distinct (replaceItemInArray ps item ex)"
    by (rule distinct_replaceItemInArray)
next
  assume "r ''scope'' = Some (JString s) \<and> isTrusted r \<and> wantsConsent C r"
  then show "normalizeScopesAndPermissions C r =
        (let permissions =
               replaceItemInArray (scopeStrToArray s) (OAUTH_TRUSTED_PROFILE_SCOPE C)
                 (OAUTH_TRUSTED_PROFILE_SCOPE_EXPANSION C)
         in if permissions = [] then Inl (INVALID_PARAMETER ''scope'')
            else Inr (r(''scope'' \<mapsto> JString (join '' '' permissions),
                        ''permissions'' \<mapsto> JArray permissions)))"
    by (simp add: normalizeScopesAndPermissions_def Let_def)
qed

text \<open>
  The theorem at a trusted relier that wants consent and asks for
  \<^verbatim>\<open>profile profile:email openid\<close>: the sub-scope that is present already keeps its place
  and is not repeated.
\<close>

theorem profile_expansion_appended_witness:
  "distinct [''profile'', ''profile:email'', ''openid''] \<and>
   replaceItemInArray [''profile'', ''profile:email'', ''openid''] ''profile''
     [''profile:uid'', ''profile:email''] =
     [''profile:email'', ''openid'', ''profile:uid''] \<and>
   (trustedConsentRelier ''profile profile:email openid'') ''scope'' =
     Some (JString ''profile profile:email openid'') \<and>
   isTrusted (trustedConsentRelier ''profile profile:email openid'') \<and>
   wantsConsent exampleConstants (trustedConsentRelier ''profile profile:email openid'') \<and>
   normalizeScopesAndPermissions exampleConstants
       (trustedConsentRelier ''profile profile:email openid'') =
     Inr ((trustedConsentRelier ''profile profile:email openid'')
            (''scope'' \<mapsto> JString ''profile:email openid profile:uid'',
             ''permissions'' \<mapsto> JArray [''profile:email'', ''openid'', ''profile:uid'']))"
  using profile_expansion_appended
    [of "[''profile'', ''profile:email'', ''openid'']" "''profile''"
        "[''profile:uid'', ''profile:email'']"
        "trustedConsentRelier ''profile profile:email openid''"
        "''profile profile:email openid''" exampleConstants]
  by (simp add: normalize_defs)

text \<open>
  The expansion does not take the place of the token it replaces: for the scope
  \<^verbatim>\<open>profile openid\<close> the token \<^verbatim>\<open>openid\<close>, which followed \<^verbatim>\<open>profile\<close>, comes first in
  the result and the sub-scopes follow it.
\<close>

theorem profile_expansion_position_counterexample:
  "normalizeScopesAndPermissions exampleConstants (trustedConsentRelier ''profile openid'') =
     Inr ((trustedConsentRelier ''profile openid'')
            (''scope'' \<mapsto> JString ''openid profile:uid profile:email'',
             ''permissions'' \<mapsto> JArray [''openid'', ''profile:uid'', ''profile:email''])) \<and>
   replaceItemInArray [''profile'', ''openid''] ''profile'' [''profile:uid'', ''profile:email'']
     \<noteq> [''profile:uid'', ''profile:email'', ''openid'']"
  by (simp add: normalize_defs)



text \<open>
  Claim C5. With a scope that is a string, normalization computes the permission list
  by the relier's policy and fails with INVALID_PARAMETER on \<^verbatim>\<open>scope\<close> exactly when
  that list is empty; otherwise it stores the list and its join. For an untrusted
  relier the list is the tokens of the scope, in their order, that the allow-list
  contains.
\<close>

theorem untrusted_scope_filtered:
  assumes "r ''scope'' = Some (JString s)"
  shows "normalizeScopesAndPermissions C r =
           (let permissions =
                  (if isTrusted r then
                     (if wantsConsent C r then
                        replaceItemInArray (scopeStrToArray s) (OAUTH_TRUSTED_PROFILE_SCOPE C)
                          (OAUTH_TRUSTED_PROFILE_SCOPE_EXPANSION C)
                      else scopeStrToArray s)
                   else filter (\<lambda>t. t \<in> set (OAUTH_UNTRUSTED_ALLOWED_PERMISSIONS C))
                          (scopeStrToArray s))
            in if permissions = [] then Inl (INVALID_PARAMETER ''scope'')
               else Inr (r(''scope'' \<mapsto> JString (join '' '' permissions),
                           ''permissions'' \<mapsto> JArray permissions)))"
  using assms by (rule normalize_policy [of r s C])

text \<open>
  The theorem at an untrusted relier, against the allow-list \<^verbatim>\<open>[profile]\<close>: the scope
  \<^verbatim>\<open>profile secret\<close> is cut down to \<^verbatim>\<open>profile\<close>, the scope \<^verbatim>\<open>secret\<close> is refused.
\<close>

theorem untrusted_scope_filtered_witness:
  "(untrustedRelier ''profile secret'') ''scope'' = Some (JString ''profile secret'') \<and>
   normalizeScopesAndPermissions exampleConstants (untrustedRelier ''profile secret'') =
     Inr ((untrustedRelier ''profile secret'')
            (''scope'' \<mapsto> JString ''profile'', ''permissions'' \<mapsto> JArray [''profile''])) \<and>
   (untrustedRelier ''secret'') ''scope'' = Some (JString ''secret'') \<and>
   normalizeScopesAndPermissions exampleConstants (untrustedRelier ''secret'') =
     Inl (INVALID_PARAMETER ''scope'')"
  using untrusted_scope_filtered
          [of "untrustedRelier ''profile secret''" "''profile secret''" exampleConstants]
        untrusted_scope_filtered
          [of "untrustedRelier ''secret''" "''secret''" exampleConstants]
  by (simp add: normalize_defs)



section \<open>Claims about the relier resolution flow\<close>

text \<open>
  Claim C2, as the code has it. On the sign-in/sign-up path the query parameters go
  through the schema first, and the \<^verbatim>\<open>service\<close> parameter is looked at afterwards. With
  a non-empty \<^verbatim>\<open>service\<close> parameter the flow always fails: with the error of the schema
  when the schema refuses the query, and with INVALID_PARAMETER on \<^verbatim>\<open>service\<close> when the
  schema accepts it.
\<close>

theorem service_param_rejected:
  assumes "\<not> isVerificationFlow E"
      and "searchParams E ''service'' = Some sv" and "sv \<noteq> []"
  shows "fetch C V E r =
           (case transformUsingSchema (getSearchParam E) (SIGNIN_SIGNUP_QUERY_PARAM_SCHEMA V) of
              Inl e \<Rightarrow> Inl e
            | Inr result \<Rightarrow> Inl (INVALID_PARAMETER ''service''))"
  using assms
  by (simp add: fetch_def setupSignInSignUpFlow_def importSearchParamsUsingSchema_def
      getSearchParam_def split: sum.splits)

text \<open>
  The theorem at a request that carries a client id, a scope and a service: the schema
  accepts the query and the flow fails on \<^verbatim>\<open>service\<close>.
\<close>

theorem service_param_rejected_witness:
  "\<not> isVerificationFlow
       (exampleEnv [(''client_id'', ''dcdb5ae7add825d2''), (''scope'', ''profile''),
                    (''service'', ''sync'')] None) \<and>
   searchParams
       (exampleEnv [(''client_id'', ''dcdb5ae7add825d2''), (''scope'', ''profile''),
                    (''service'', ''sync'')] None) ''service'' = Some ''sync'' \<and>
   fetch exampleConstants anyFormat
       (exampleEnv [(''client_id'', ''dcdb5ae7add825d2''), (''scope'', ''profile''),
                    (''service'', ''sync'')] None) noAttributes =
     Inl (INVALID_PARAMETER ''service'')"
  using service_param_rejected
    [of "exampleEnv [(''client_id'', ''dcdb5ae7add825d2''), (''scope'', ''profile''),
                     (''service'', ''sync'')] None"
        "''sync''" exampleConstants anyFormat noAttributes]
  by (simp add: isVerificationFlow_def getSearchParam_def exampleEnv_def schema_defs)

text \<open>
  A request on the sign-in/sign-up path that carries a \<^verbatim>\<open>service\<close> parameter and no
  client id fails on the missing client id, not on \<^verbatim>\<open>service\<close>.
\<close>

theorem service_param_masked_counterexample:
  "\<not> isVerificationFlow (exampleEnv [(''service'', ''sync'')] None) \<and>
   searchParams (exampleEnv [(''service'', ''sync'')] None) ''service'' = Some ''sync'' \<and>
   fetch exampleConstants anyFormat (exampleEnv [(''service'', ''sync'')] None) noAttributes =
     Inl (MISSING_PARAMETER ''client_id'') \<and>
   fetch exampleConstants anyFormat (exampleEnv [(''service'', ''sync'')] None) noAttributes \<noteq>
     Inl (INVALID_PARAMETER ''service'')"
  by (simp add: flow_defs schema_defs)

text \<open>
  Claim C6. Let the client registry answer for the relier's client id and the answer
  pass the client schema. On the sign-in/sign-up path, once the request has been
  imported, a registered redirect URI that differs from the one of the request makes
  the flow fail with INCORRECT_REDIRECT. On the verification path the step that reads
  the registry succeeds whatever the two URIs are, and the flow does not fail with
  INCORRECT_REDIRECT.
\<close>

theorem redirect_cross_validation:
  assumes "getClientInfo E (r1 ''clientId'') = Inr info"
      and "transformUsingSchema info (CLIENT_INFO_SCHEMA V) = Inr result"
  shows "(\<not> isVerificationFlow E \<and> setupSignInSignUpFlow V E r = Inr r1 \<and>
          result ''redirectUri'' \<noteq> r1 ''redirectUri'' \<longrightarrow>
            fetch C V E r = Inl INCORRECT_REDIRECT) \<and>
         (isVerificationFlow E \<and> setupVerificationFlow V E r = Inr r1 \<longrightarrow>
            setupOAuthRPInfo V E True r1 = Inr (r1 ++ result) \<and>
            fetch C V E r \<noteq> Inl INCORRECT_REDIRECT)"
  using assms
  by (auto simp: fetch_def setupOAuthRPInfo_def Let_def normalize_not_redirect)

text \<open>
  The theorem at a request whose redirect URI is not the registered one, and at a
  verification link whose session context holds that same other URI: the first fails,
  the second resolves with the registered URI.
\<close>

theorem redirect_cross_validation_witness:
  "fetch exampleConstants anyFormat
       (exampleEnv [(''client_id'', ''dcdb5ae7add825d2''),
                    (''redirect_uri'', ''https://other.example/cb''),
                    (''scope'', ''profile'')] None) noAttributes =
     Inl INCORRECT_REDIRECT \<and>
   isVerificationFlow (exampleEnv [(''code'', ''c0de'')] (Some exampleResume)) \<and>
   fetch exampleConstants anyFormat
       (exampleEnv [(''code'', ''c0de'')] (Some exampleResume)) noAttributes \<noteq>
     Inl INCORRECT_REDIRECT \<and>
   (case fetch exampleConstants anyFormat
           (exampleEnv [(''code'', ''c0de'')] (Some exampleResume)) noAttributes of
      Inl e \<Rightarrow> False
    | Inr r' \<Rightarrow> r' ''redirectUri'' = Some (JString ''https://rp.example/cb''))"
  using redirect_cross_validation
    [of "exampleEnv [(''client_id'', ''dcdb5ae7add825d2''),
                     (''redirect_uri'', ''https://other.example/cb''),
                     (''scope'', ''profile'')] None"
        "[''scope'' \<mapsto> JString ''profile'',
          ''redirectUri'' \<mapsto> JString ''https://other.example/cb'',
          ''clientId'' \<mapsto> JString ''dcdb5ae7add825d2'']"
        exampleClientInfo anyFormat
        "[''trusted'' \<mapsto> JBoolean True,
          ''redirectUri'' \<mapsto> JString ''https://rp.example/cb'',
          ''serviceName'' \<mapsto> JString ''123done'',
          ''clientId'' \<mapsto> JString ''dcdb5ae7add825d2'']"
        noAttributes exampleConstants]
    redirect_cross_validation
    [of "exampleEnv [(''code'', ''c0de'')] (Some exampleResume)"
        "[''scope'' \<mapsto> JString ''profile'',
          ''redirectUri'' \<mapsto> JString ''https://other.example/cb'',
          ''clientId'' \<mapsto> JString ''dcdb5ae7add825d2'']"
        exampleClientInfo anyFormat
        "[''trusted'' \<mapsto> JBoolean True,
          ''redirectUri'' \<mapsto> JString ''https://rp.example/cb'',
          ''serviceName'' \<mapsto> JString ''123done'',
          ''clientId'' \<mapsto> JString ''dcdb5ae7add825d2'']"
        noAttributes exampleConstants]
  by (simp add: flow_defs schema_defs normalize_defs)

section \<open>Claims about sign-in\<close>

text \<open>
  Claim C3, as the code has it. The handler of a rejected sign-in, at an error that is
  THROTTLED or REQUEST_BLOCKED. When the error says that the sign-in can be unblocked
  (verification reason SIGN_IN, verification method EMAIL_CAPTCHA), the unblock email
  is sent first; if the send succeeds the view navigates to the unblock screen, and if
  it fails the failure of the send is the result and nothing is navigated to. When
  the error does not say so, the error itself is the result and nothing is sent. A
  rejection of \<^verbatim>\<open>signInAccount\<close> reaches this handler.
\<close>

theorem blocked_signin_remediation:
  assumes "kind err = THROTTLED \<or> kind err = REQUEST_BLOCKED"
  shows "signInCatch S v acct password err =
           (if errVerificationReason err = Some SIGN_IN \<and>
               errVerificationMethod err = Some EMAIL_CAPTCHA then
              (case sendUnblockEmail S acct of
                 None \<Rightarrow>
                   (Inr (Navigated ''signin_unblock'' (UnblockData acct (currentPage v) password)),
                    v\<lparr>effects := effects v @
                         [SendUnblockEmail acct,
                          NavigateTo ''signin_unblock''
                            (UnblockData acct (currentPage v) password)]\<rparr>)
               | Some sendErr \<Rightarrow>
                   (Inl sendErr, v\<lparr>effects := effects v @ [SendUnblockEmail acct]\<rparr>))
            else (Inl err, v)) \<and>
         (\<not> isDefault a \<and>
          (sessionToken a \<noteq> None \<or> (password \<noteq> None \<and> password \<noteq> Some [])) \<and>
          invokeBrokerMethod S v0 ''beforeSignIn'' a = Inr done \<and>
          signInAttempt S (emit (InvokeBrokerMethod ''beforeSignIn'' a) v0) a password unblock =
            (Inl err, v, acct) \<longrightarrow>
            signIn C S v0 (Some a) password unblock = signInCatch S v acct password err)"
  using assms
  by (auto simp: signInCatch_def onSignInBlocked_def navigate_def emit_def Let_def signIn_def
      split: option.splits)

text \<open>
  The theorem at a sign-in that is blocked and can be unblocked, where the send of the
  unblock email is throttled: the result is the failure of the send, and the last
  effect is the attempt to send.
\<close>

theorem blocked_signin_remediation_witness:
  "(kind (blockedError REQUEST_BLOCKED) = THROTTLED \<or>
    kind (blockedError REQUEST_BLOCKED) = REQUEST_BLOCKED) \<and>
   signInCatch (exampleServices (Inl (blockedError REQUEST_BLOCKED)) (Some (toError THROTTLED)))
       (exampleView noAttributes) (exampleAccount True) (Some ''password'')
       (blockedError REQUEST_BLOCKED) =
     (Inl (toError THROTTLED),
      (exampleView noAttributes)\<lparr>effects := [SendUnblockEmail (exampleAccount True)]\<rparr>) \<and>
   fst (signIn exampleConstants
          (exampleServices (Inl (blockedError REQUEST_BLOCKED)) (Some (toError THROTTLED)))
          (exampleView noAttributes) (Some (exampleAccount True)) (Some ''password'') None) =
     Inl (toError THROTTLED)"
  using blocked_signin_remediation
    [of "blockedError REQUEST_BLOCKED"
        "exampleServices (Inl (blockedError REQUEST_BLOCKED)) (Some (toError THROTTLED))"
        "exampleView noAttributes" "exampleAccount True" "Some ''password''"]
  by (simp add: signin_defs Let_def)

text \<open>
  A sign-in that fails with a THROTTLED error that names no way to unblock: the error
  itself is the result, and the effects hold no unblock email and no navigation.
\<close>

theorem blocked_signin_not_unblockable_counterexample:
  "signIn exampleConstants (exampleServices (Inl (toError THROTTLED)) None)
     (exampleView noAttributes) (Some (exampleAccount True)) (Some ''password'') None =
   (Inl (toError THROTTLED),
    (exampleView noAttributes)
      \<lparr>effects :=
         [InvokeBrokerMethod ''beforeSignIn'' (exampleAccount True),
          LogFlowEvent ''attempt'' ''signin'',
          SignInAccount (exampleAccount True) (Some ''password'')
            \<lparr>resume = ''resume'', unblockCode = None, optVerificationMethod = None\<rparr>]\<rparr>)"
  by (simp add: signin_defs Let_def)

text \<open>
  Claim C7. For an account that is not verified, \<^verbatim>\<open>onSignInSuccess\<close> navigates, with the
  account: to \<^verbatim>\<open>confirm_signin\<close> for (SIGN_IN, EMAIL), to \<^verbatim>\<open>signin_token_code\<close> for
  (SIGN_IN, EMAIL_2FA), to \<^verbatim>\<open>signin_totp_code\<close> for (SIGN_IN, TOTP_2FA), and to \<^verbatim>\<open>confirm\<close>
  for every other pair of verification reason and method. A sign-in whose
  authentication resolves with such an account, and whose relier asks for no further
  permissions, results in what \<^verbatim>\<open>onSignInSuccess\<close> results in.
\<close>

theorem unverified_outcome:
  assumes "\<not> verified acct"
  shows "(verificationReason acct = Some SIGN_IN \<and> verificationMethod acct = Some EMAIL \<longrightarrow>
            onSignInSuccess S v acct = navigate v ''confirm_signin'' (AccountData acct)) \<and>
         (verificationReason acct = Some SIGN_IN \<and> verificationMethod acct = Some EMAIL_2FA \<longrightarrow>
            onSignInSuccess S v acct = navigate v ''signin_token_code'' (AccountData acct)) \<and>
         (verificationReason acct = Some SIGN_IN \<and> verificationMethod acct = Some TOTP_2FA \<longrightarrow>
            onSignInSuccess S v acct = navigate v ''signin_totp_code'' (AccountData acct)) \<and>
         (\<not> (verificationReason acct = Some SIGN_IN \<and>
              (verificationMethod acct = Some EMAIL \<or> verificationMethod acct = Some EMAIL_2FA \<or>
               verificationMethod acct = Some TOTP_2FA)) \<longrightarrow>
            onSignInSuccess S v acct = navigate v ''confirm'' (AccountData acct)) \<and>
         (\<not> isDefault a \<and> (sessionToken a \<noteq> None \<or> (pw \<noteq> None \<and> pw \<noteq> Some [])) \<and>
          invokeBrokerMethod S v0 ''beforeSignIn'' a = Inr done \<and>
          signInAttempt S (emit (InvokeBrokerMethod ''beforeSignIn'' a) v0) a pw unblock =
            (Inr acct, v4, a1) \<and>
          \<not> accountNeedsPermissions C S (relier v4) acct \<longrightarrow>
            signIn C S v0 (Some a) pw unblock =
              onSignInSuccess S (if formPrefill v4 then emit FormPrefillClear v4 else v4) acct)"
proof -
  have screens:
    "(verificationReason acct = Some SIGN_IN \<and> verificationMethod acct = Some EMAIL \<longrightarrow>
        onSignInSuccess S v acct = navigate v ''confirm_signin'' (AccountData acct)) \<and>
     (verificationReason acct = Some SIGN_IN \<and> verificationMethod acct = Some EMAIL_2FA \<longrightarrow>
        onSignInSuccess S v acct = navigate v ''signin_token_code'' (AccountData acct)) \<and>
     (verificationReason acct = Some SIGN_IN \<and> verificationMethod acct = Some TOTP_2FA \<longrightarrow>
        onSignInSuccess S v acct = navigate v ''signin_totp_code'' (AccountData acct)) \<and>
     (\<not> (verificationReason acct = Some SIGN_IN \<and>
          (verificationMethod acct = Some EMAIL \<or> verificationMethod acct = Some EMAIL_2FA \<or>
           verificationMethod acct = Some TOTP_2FA)) \<longrightarrow>
        onSignInSuccess S v acct = navigate v ''confirm'' (AccountData acct))"
    using assms by (auto simp: onSignInSuccess_def)
  have whole:
    "\<not> isDefault a \<and> (sessionToken a \<noteq> None \<or> (pw \<noteq> None \<and> pw \<noteq> Some [])) \<and>
     invokeBrokerMethod S v0 ''beforeSignIn'' a = Inr done \<and>
     signInAttempt S (emit (InvokeBrokerMethod ''beforeSignIn'' a) v0) a pw unblock =
       (Inr acct, v4, a1) \<and>
     \<not> accountNeedsPermissions C S (relier v4) acct \<longrightarrow>
       signIn C S v0 (Some a) pw unblock =
         onSignInSuccess S (if formPrefill v4 then emit FormPrefillClear v4 else v4) acct"
    using assms signIn_resolves [of a pw S v0 "done" unblock acct v4 a1 C] by blast
  from screens whole show ?thesis by blast
qed

text \<open>
  The theorem at an unverified account with (SIGN_IN, EMAIL_2FA), at one whose
  verification reason is another one, and at a sign-in that resolves with the former.
\<close>

theorem unverified_outcome_witness:
  "\<not> verified (exampleAccount False) \<and>
   verificationReason (exampleAccount False) = Some SIGN_IN \<and>
   verificationMethod (exampleAccount False) = Some EMAIL_2FA \<and>
   fst (onSignInSuccess (exampleServices (Inr (exampleAccount False)) None)
          (exampleView noAttributes) (exampleAccount False)) =
     Inr (Navigated ''signin_token_code'' (AccountData (exampleAccount False))) \<and>
   fst (onSignInSuccess (exampleServices (Inr (exampleAccount False)) None)
          (exampleView noAttributes)
          ((exampleAccount False)\<lparr>verificationReason := Some (OTHER_REASON ''signup'')\<rparr>)) =
     Inr (Navigated ''confirm''
            (AccountData
               ((exampleAccount False)\<lparr>verificationReason := Some (OTHER_REASON ''signup'')\<rparr>))) \<and>
   fst (signIn exampleConstants (exampleServices (Inr (exampleAccount False)) None)
          (exampleView (trustedRelier ''profile'')) (Some (exampleAccount True))
          (Some ''password'') None) =
     Inr (Navigated ''signin_token_code'' (AccountData (exampleAccount False)))"
  using unverified_outcome
    [of "exampleAccount False" "exampleServices (Inr (exampleAccount False)) None"
        "exampleView noAttributes"]
    unverified_outcome
    [of "(exampleAccount False)\<lparr>verificationReason := Some (OTHER_REASON ''signup'')\<rparr>"
        "exampleServices (Inr (exampleAccount False)) None" "exampleView noAttributes"]
  by (simp add: signin_defs Let_def trustedRelier_def)




text \<open>
  Claim C10. \<^verbatim>\<open>accountNeedsPermissions\<close> is false for a trusted relier whose prompt is not
  the consent prompt, and a sign-in with such a relier neither results in nor adds a
  navigation to the permissions screen. For every other relier it is true exactly when
  the account has not seen, for the relier's client id, the permissions among the
  relier's for which the account has a value.
\<close>

theorem account_needs_permissions:
  "(isTrusted r \<and> \<not> wantsConsent C r \<longrightarrow> \<not> accountNeedsPermissions C S r acct) \<and>
   (\<not> (isTrusted r \<and> \<not> wantsConsent C r) \<longrightarrow>
      accountNeedsPermissions C S r acct =
        (\<not> hasSeenPermissions S acct (r ''clientId'')
             (getPermissionsWithValues S acct (r ''permissions'')))) \<and>
   (isTrusted (relier v) \<and> \<not> wantsConsent C (relier v) \<longrightarrow>
      fst (signIn C S v account pw unblock) \<noteq> Inr (Navigated ''signin_permissions'' d) \<and>
      ((NavigateTo ''signin_permissions'' d
          \<in> set (effects (snd (signIn C S v account pw unblock)))) =
       (NavigateTo ''signin_permissions'' d \<in> set (effects v))))"
  using signIn_trusted_no_permissions_screen [of v C S account pw unblock d]
  by (simp add: accountNeedsPermissions_def Let_def)

text \<open>
  The theorem at a trusted relier without a prompt, and at an untrusted relier whose
  permissions the account has not seen: the first sign-in goes on to the broker, the
  second account needs permissions.
\<close>

theorem account_needs_permissions_witness:
  "isTrusted (trustedRelier ''profile'') \<and>
   \<not> wantsConsent exampleConstants (trustedRelier ''profile'') \<and>
   \<not> accountNeedsPermissions exampleConstants (exampleServices (Inr (exampleAccount True)) None)
        ((trustedRelier ''profile'')(''permissions'' \<mapsto> JArray [''profile'']))
        (exampleAccount True) \<and>
   fst (signIn exampleConstants (exampleServices (Inr (exampleAccount True)) None)
          (exampleView (trustedRelier ''profile'')) (Some (exampleAccount True))
          (Some ''password'') None) \<noteq>
     Inr (Navigated ''signin_permissions'' (PermissionsData (exampleAccount True))) \<and>
   \<not> isTrusted (untrustedRelier ''profile'') \<and>
   accountNeedsPermissions exampleConstants (exampleServices (Inr (exampleAccount True)) None)
        ((untrustedRelier ''profile'')(''permissions'' \<mapsto> JArray [''profile'']))
        (exampleAccount True)"
  using account_needs_permissions
    [of "(trustedRelier ''profile'')(''permissions'' \<mapsto> JArray [''profile''])" exampleConstants
        "exampleServices (Inr (exampleAccount True)) None" "exampleAccount True"
        "exampleView (trustedRelier ''profile'')" "Some (exampleAccount True)"
        "Some ''password''" None "PermissionsData (exampleAccount True)"]
    account_needs_permissions
    [of "(untrustedRelier ''profile'')(''permissions'' \<mapsto> JArray [''profile''])" exampleConstants
        "exampleServices (Inr (exampleAccount True)) None" "exampleAccount True"
        "exampleView (trustedRelier ''profile'')" "Some (exampleAccount True)"
        "Some ''password''" None "PermissionsData (exampleAccount True)"]
  by (simp add: normalize_defs exampleServices_def exampleView_def)

end
